theory Spec2Isabelle
  imports Complex_Main "HOL-Library.AList"
begin

section \<open>Python values and exceptions\<close>

text \<open>
  The module under verification is \<^verbatim>\<open>srv/salt/_modules/snapper.py\<close>, a Python 2 Salt
  execution module that talks to the snapper service over D-Bus. Every exception the
  module can meet is a value of \<open>error\<close>; a computation returns \<open>Inl e\<close> where the
  Python raises \<open>e\<close>.

  A message is kept in the shape the source builds it: \<open>Text\<close> for a finished string,
  \<open>TextSet t S\<close> for \<open>t.format(S)\<close> with a Python set \<open>S\<close> (whose printed order Python 2
  leaves open), \<open>Text2 t a\<close> for an exception constructed from two positional arguments.
\<close>

datatype message = Text string | Text2 string string | TextSet string "string set"

datatype error =
    DBusException string
  | CommandExecutionError message
  | IndexError
  | KeyError
  | ValueError
  | IOError
  | TypeError
  | Raised string

text \<open>Indexing a Python list: negative indices count from the end, anything else raises.\<close>

definition py_getitem :: "'a list \<Rightarrow> int \<Rightarrow> error + 'a" where
  "py_getitem xs i =
     (if 0 \<le> i \<and> i < int (length xs) then Inr (xs ! nat i)
      else if i < 0 \<and> - int (length xs) \<le> i then Inr (xs ! nat (int (length xs) + i))
      else Inl IndexError)"

text \<open>\<open>s.split(sep)\<close> for a one-character separator: every occurrence splits, empty pieces stay.\<close>

fun py_split :: "char \<Rightarrow> string \<Rightarrow> string list" where
  "py_split sep [] = [[]]"
| "py_split sep (c # cs) =
     (if c = sep then [] # py_split sep cs
      else (case py_split sep cs of [] \<Rightarrow> [[c]] | p # ps \<Rightarrow> (c # p) # ps))"

section \<open>Data model\<close>

text \<open>
  The positional record of a snapshot as the service returns it
  (\<open>snapshot[0]\<close> \<dots> \<open>snapshot[7]\<close>): id, type index, pre number, date, uid,
  description, cleanup algorithm, userdata.
\<close>

record raw_snapshot =
  raw_id :: int
  raw_type :: int
  raw_pre :: int
  raw_date :: int
  raw_uid :: int
  raw_description :: string
  raw_cleanup :: string
  raw_userdata :: "(string \<times> string) list"

datatype timestamp = Reported int | WallClock real

text \<open>
  The dictionary \<open>data\<close> built by \<open>_snapshot_to_data\<close>; the key \<open>'pre'\<close> is optional,
  so its field is an option.
\<close>

record snapshot_data =
  d_id :: int
  d_type :: string
  d_pre :: "int option"
  d_timestamp :: timestamp
  d_user :: string
  d_description :: string
  d_cleanup :: string
  d_userdata :: "string \<rightharpoonup> string"

section \<open>The outside world: service, operating system, Salt\<close>

text \<open>
  Calls that leave the module are recorded, in order, as events. The dictionary objects
  that outlive a call (the default arguments \<open>userdata={}\<close> of \<open>create_snapshot\<close> and
  of \<open>run\<close>, evaluated once when the module is loaded, and dictionaries a caller owns)
  live in a store indexed by \<open>dict_ref\<close>.
\<close>

datatype event =
    EvListSnapshots string
  | EvCreateComparison string int int
  | EvGetFiles string int int
  | EvMountSnapshot string int bool
  | EvUmountSnapshot string int bool
  | EvCreateSingleSnapshot string "string option" string "string \<rightharpoonup> string"
  | EvCreatePreSnapshot string "string option" string "string \<rightharpoonup> string"
  | EvCreatePostSnapshot string int "string option" string "string \<rightharpoonup> string"
  | EvCmdRun int int "string set"
  | EvSaltCall "string option" "string list" "string \<rightharpoonup> string"

datatype dict_ref = Default_create_snapshot | Default_run | Caller nat

record 'w state =
  world :: 'w
  trace :: "event list"
  heap :: "dict_ref \<Rightarrow> (string \<rightharpoonup> string)"

text \<open>
  The collaborators are parameters. A D-Bus method takes the world and returns either
  the D-Bus name of the exception it raises or its reply, and the next world. Reading the
  file system, the password database and the clock does not change the world.
  \<open>salt_cmd_run pre post requested\<close> stands for
  \<open>__salt__['cmd.run']('snapper undochange {pre}..{post} ' + ' '.join(requested))\<close>;
  \<open>salt_call function args kwargs\<close> for \<open>__salt__[function](*args, **kwargs)\<close>.
\<close>

record 'w service =
  ListSnapshots :: "string \<Rightarrow> 'w \<Rightarrow> (string + raw_snapshot list) \<times> 'w"
  CreateComparison :: "string \<Rightarrow> int \<Rightarrow> int \<Rightarrow> 'w \<Rightarrow> (string + unit) \<times> 'w"
  GetFiles :: "string \<Rightarrow> int \<Rightarrow> int \<Rightarrow> 'w \<Rightarrow> (string + (string \<times> int) list) \<times> 'w"
  MountSnapshot :: "string \<Rightarrow> int \<Rightarrow> bool \<Rightarrow> 'w \<Rightarrow> (string + string) \<times> 'w"
  UmountSnapshot :: "string \<Rightarrow> int \<Rightarrow> bool \<Rightarrow> 'w \<Rightarrow> (string + unit) \<times> 'w"
  CreateSingleSnapshot ::
    "string \<Rightarrow> string option \<Rightarrow> string \<Rightarrow> (string \<rightharpoonup> string) \<Rightarrow> 'w \<Rightarrow> (string + int) \<times> 'w"
  CreatePreSnapshot ::
    "string \<Rightarrow> string option \<Rightarrow> string \<Rightarrow> (string \<rightharpoonup> string) \<Rightarrow> 'w \<Rightarrow> (string + int) \<times> 'w"
  CreatePostSnapshot ::
    "string \<Rightarrow> int \<Rightarrow> string option \<Rightarrow> string \<Rightarrow> (string \<rightharpoonup> string) \<Rightarrow> 'w
      \<Rightarrow> (string + int) \<times> 'w"
  getpwuid :: "'w \<Rightarrow> int \<Rightarrow> string option"
  time_time :: "'w \<Rightarrow> real"
  os_path_isfile :: "'w \<Rightarrow> string \<Rightarrow> bool"
  open_readlines :: "'w \<Rightarrow> string \<Rightarrow> error + string list"
  os_popen_read :: "'w \<Rightarrow> string \<Rightarrow> string"
  unified_diff :: "string list \<Rightarrow> string list \<Rightarrow> string \<Rightarrow> string \<Rightarrow> string list"
  salt_cmd_run :: "int \<Rightarrow> int \<Rightarrow> string set \<Rightarrow> 'w \<Rightarrow> (error + string) \<times> 'w"
  salt_call ::
    "string option \<Rightarrow> string list \<Rightarrow> (string \<rightharpoonup> string) \<Rightarrow> 'w \<Rightarrow> (error + string) \<times> 'w"

section \<open>Sequencing, raising and catching\<close>

type_synonym ('w, 'a) prog = "'w state \<Rightarrow> (error + 'a) \<times> 'w state"

definition succeed :: "'a \<Rightarrow> ('w, 'a) prog" where
  "succeed v s = (Inr v, s)"

definition raise :: "error \<Rightarrow> ('w, 'a) prog" where
  "raise e s = (Inl e, s)"

definition lift :: "error + 'a \<Rightarrow> ('w, 'a) prog" where
  "lift r s = (r, s)"

definition andthen :: "('w, 'a) prog \<Rightarrow> ('a \<Rightarrow> ('w, 'b) prog) \<Rightarrow> ('w, 'b) prog" where
  "andthen m k s = (case m s of (Inl e, s') \<Rightarrow> (Inl e, s') | (Inr v, s') \<Rightarrow> k v s')"

text \<open>A D-Bus method call: the event is recorded, the world advances, an exception
  of the service surfaces as \<open>DBusException\<close>.\<close>

definition dbus :: "event \<Rightarrow> ('w \<Rightarrow> (string + 'a) \<times> 'w) \<Rightarrow> ('w, 'a) prog" where
  "dbus ev f s =
     (case f (world s) of
        (Inl name, w') \<Rightarrow> (Inl (DBusException name), s\<lparr>world := w', trace := trace s @ [ev]\<rparr>)
      | (Inr v, w') \<Rightarrow> (Inr v, s\<lparr>world := w', trace := trace s @ [ev]\<rparr>))"

text \<open>A call into Salt (\<open>__salt__[...]\<close>): recorded the same way; whatever it raises
  is passed on unchanged.\<close>

definition salt :: "event \<Rightarrow> ('w \<Rightarrow> (error + 'a) \<times> 'w) \<Rightarrow> ('w, 'a) prog" where
  "salt ev f s =
     (case f (world s) of (r, w') \<Rightarrow> (r, s\<lparr>world := w', trace := trace s @ [ev]\<rparr>))"

text \<open>\<open>try: m except dbus.DBusException as exc: h\<close>; only \<open>DBusException\<close> is caught.\<close>

definition except_DBusException ::
  "('w, 'a) prog \<Rightarrow> (string \<Rightarrow> ('w, 'a) prog) \<Rightarrow> ('w, 'a) prog" where
  "except_DBusException m h s =
     (case m s of
        (Inl (DBusException name), s') \<Rightarrow> h name s'
      | (r, s') \<Rightarrow> (r, s'))"

section \<open>The module\<close>

subsection \<open>Decoding a snapshot\<close>

text \<open>
  \<open>_snapshot_to_data\<close> (Isabelle names cannot start with an underscore, so the leading
  underscore of the private functions is dropped). The list index raises before the
  user lookup does.
\<close>

definition snapshot_to_data :: "'w service \<Rightarrow> 'w \<Rightarrow> raw_snapshot \<Rightarrow> error + snapshot_data" where
  "snapshot_to_data sv w snapshot =
     (case py_getitem [''single'', ''pre'', ''post''] (raw_type snapshot) of
        Inl e \<Rightarrow> Inl e
      | Inr ty \<Rightarrow>
          (case getpwuid sv w (raw_uid snapshot) of
             None \<Rightarrow> Inl KeyError
           | Some user \<Rightarrow>
               Inr \<lparr> d_id = raw_id snapshot,
                     d_type = ty,
                     d_pre = (if ty = ''post'' then Some (raw_pre snapshot) else None),
                     d_timestamp =
                       (if raw_date snapshot \<noteq> - 1 then Reported (raw_date snapshot)
                        else WallClock (time_time sv w)),
                     d_user = user,
                     d_description = raw_description snapshot,
                     d_cleanup = raw_cleanup snapshot,
                     d_userdata =
                       fold (\<lambda>(k, v) m. m(k \<mapsto> v)) (raw_userdata snapshot) Map.empty \<rparr>))"

text \<open>\<open>_dbus_exception_to_reason(exc, args)\<close>; \<open>args\<close> is \<open>locals()\<close> of the caller.\<close>

definition dbus_exception_to_reason :: "string \<Rightarrow> (string \<rightharpoonup> string) \<Rightarrow> error + string" where
  "dbus_exception_to_reason name args =
     (if name = ''error.unknown_config'' then
        (case args ''config'' of
           None \<Rightarrow> Inl KeyError
         | Some c \<Rightarrow> Inr (''Unknown configuration '' @ [CHR 0x27] @ c @ [CHR 0x27]))
      else if name = ''error.illegal_snapshot'' then Inr ''Invalid snapshot''
      else Inr name)"

definition reraise :: "string \<Rightarrow> string \<Rightarrow> string \<Rightarrow> ('w, 'a) prog" where
  "reraise prefix config name =
     andthen (lift (dbus_exception_to_reason name [''config'' \<mapsto> config]))
       (\<lambda>reason. raise (CommandExecutionError (Text (prefix @ reason))))"

text \<open>The list comprehension \<open>[_snapshot_to_data(s) for s in snapshots]\<close>: the first
  element that fails to decode ends it.\<close>

primrec decode_each :: "('a \<Rightarrow> error + 'b) \<Rightarrow> 'a list \<Rightarrow> error + 'b list" where
  "decode_each f [] = Inr []"
| "decode_each f (x # xs) =
     (case f x of
        Inl e \<Rightarrow> Inl e
      | Inr y \<Rightarrow> (case decode_each f xs of Inl e \<Rightarrow> Inl e | Inr ys \<Rightarrow> Inr (y # ys)))"

definition list_snapshots :: "'w service \<Rightarrow> string \<Rightarrow> ('w, snapshot_data list) prog" where
  "list_snapshots sv config =
     except_DBusException
       (andthen (dbus (EvListSnapshots config) (ListSnapshots sv config))
          (\<lambda>snapshots s. (decode_each (snapshot_to_data sv (world s)) snapshots, s)))
       (reraise ''Error encountered while listing snapshots: '' config)"

subsection \<open>Resolving the interval\<close>

definition get_last_snapshot :: "'w service \<Rightarrow> string \<Rightarrow> ('w, snapshot_data) prog" where
  "get_last_snapshot sv config =
     andthen (list_snapshots sv config)
       (\<lambda>snapshots. lift (py_getitem (sort_key d_id snapshots) (- 1)))"

text \<open>
  \<open>_get_num_interval\<close>. The arguments are \<open>None\<close> or an integer; \<open>x if num else y\<close>
  tests the truth value of \<open>num\<close>, and both \<open>None\<close> and \<open>0\<close> are false.
\<close>

definition get_num_interval ::
  "'w service \<Rightarrow> string \<Rightarrow> int option \<Rightarrow> int option \<Rightarrow> ('w, int \<times> int) prog" where
  "get_num_interval sv config num_pre num_post =
     (let post = (case num_post of None \<Rightarrow> 0 | Some n \<Rightarrow> if n \<noteq> 0 then n else 0) in
      andthen
        (case num_pre of
           None \<Rightarrow> andthen (get_last_snapshot sv config) (\<lambda>last. succeed (d_id last))
         | Some n \<Rightarrow>
             if n \<noteq> 0 then succeed n
             else andthen (get_last_snapshot sv config) (\<lambda>last. succeed (d_id last)))
        (\<lambda>pre. succeed (pre, post)))"

subsection \<open>Comparing\<close>

definition status_to_string :: "int \<Rightarrow> string" where
  "status_to_string status =
     (case map_of [(2, ''deleted''), (8, ''modified''), (1, ''created''), (16, ''path'')] status of
        None \<Rightarrow> ''unknown''
      | Some s \<Rightarrow> s)"

text \<open>
  The dictionary \<open>status\<close> is an association list in insertion order with one entry
  for each key, because \<open>changed_files\<close> iterates over its keys. (Python 2 leaves the
  order of \<open>keys()\<close> open; nothing proved below depends on it.)
\<close>

definition status :: "'w service \<Rightarrow> string \<Rightarrow> int option \<Rightarrow> int option \<Rightarrow> ('w, (string \<times> int) list) prog" where
  "status sv config num_pre num_post =
     except_DBusException
       (andthen (get_num_interval sv config num_pre num_post)
          (\<lambda>(pre, post).
             andthen (dbus (EvCreateComparison config pre post) (CreateComparison sv config pre post))
               (\<lambda>_. andthen (dbus (EvGetFiles config pre post) (GetFiles sv config pre post))
                  (\<lambda>files. succeed (fold (\<lambda>file st. AList.update (fst file) (snd file) st) files [])))))
       (reraise ''Error encountered while listing changed files: '' config)"

definition changed_files :: "'w service \<Rightarrow> string \<Rightarrow> int option \<Rightarrow> int option \<Rightarrow> ('w, string list) prog" where
  "changed_files sv config num_pre num_post =
     andthen (status sv config num_pre num_post) (\<lambda>st. succeed (map fst st))"

subsection \<open>Creating snapshots\<close>

text \<open>
  \<open>userdata\<close> is \<open>None\<close> when the caller omits the argument: the function then works
  on its default object, the one dictionary created when the \<open>def\<close> was evaluated.
  \<open>userdata['salt_jid'] = jid\<close> writes into whichever object the name refers to; the
  service receives that object's content at the time of the call.
\<close>

definition create_snapshot ::
  "'w service \<Rightarrow> string \<Rightarrow> string \<Rightarrow> int option \<Rightarrow> string option \<Rightarrow> string \<Rightarrow> dict_ref option
    \<Rightarrow> (string \<rightharpoonup> string) \<Rightarrow> ('w, int) prog" where
  "create_snapshot sv config snapshot_type pre_number description cleanup_algorithm userdata kwargs =
     (let jid = kwargs ''__pub_jid'';
          description =
            (case (description, jid) of
               (None, Some j) \<Rightarrow> Some (''salt job '' @ j)
             | _ \<Rightarrow> description);
          userdata = (case userdata of None \<Rightarrow> Default_create_snapshot | Some r \<Rightarrow> r)
      in
      andthen
        (\<lambda>s. (Inr (),
           (case jid of
              None \<Rightarrow> s
            | Some j \<Rightarrow> s\<lparr>heap := (heap s)(userdata := (heap s userdata)(''salt_jid'' \<mapsto> j))\<rparr>)))
        (\<lambda>_. except_DBusException
           (if snapshot_type = ''single'' then
              (\<lambda>s. dbus (EvCreateSingleSnapshot config description cleanup_algorithm (heap s userdata))
                    (CreateSingleSnapshot sv config description cleanup_algorithm (heap s userdata)) s)
            else if snapshot_type = ''pre'' then
              (\<lambda>s. dbus (EvCreatePreSnapshot config description cleanup_algorithm (heap s userdata))
                    (CreatePreSnapshot sv config description cleanup_algorithm (heap s userdata)) s)
            else if snapshot_type = ''post'' then
              (case pre_number of
                 None \<Rightarrow>
                   raise (CommandExecutionError (Text
                     (''pre snapshot number '' @ [CHR 0x27] @ ''pre_number'' @ [CHR 0x27]
                       @ '' needs to bespecified for snapshots of the ''
                       @ [CHR 0x27] @ ''post'' @ [CHR 0x27] @ '' type'')))
               | Some n \<Rightarrow>
                   (\<lambda>s. dbus (EvCreatePostSnapshot config n description cleanup_algorithm (heap s userdata))
                         (CreatePostSnapshot sv config n description cleanup_algorithm (heap s userdata)) s))
            else
              raise (CommandExecutionError (Text2
                (''Invalid snapshot type '' @ [CHR 0x27] @ ''{0}'' @ [CHR 0x27]) snapshot_type)))
           (reraise ''Error encountered while listing changed files: '' config)))"

text \<open>
  A call \<open>f(name=value, ..., **kwargs)\<close> raises \<open>TypeError\<close>, before the body of \<open>f\<close>
  runs, when \<open>kwargs\<close> holds one of the names that the call also passes by keyword.
\<close>

definition repeats_keyword :: "string list \<Rightarrow> (string \<rightharpoonup> string) \<Rightarrow> bool" where
  "repeats_keyword names kwargs = list_ex (\<lambda>name. kwargs name \<noteq> None) names"

text \<open>
  \<open>run\<close> hands its own \<open>userdata\<close> object (its default one when omitted) and its
  \<open>kwargs\<close> to both \<open>create_snapshot\<close> calls. The first call passes \<open>config\<close>, \<open>type\<close>,
  \<open>description\<close>, \<open>cleanup_algorithm\<close> and \<open>userdata\<close> by keyword, the second
  \<open>pre_number\<close> as well. A \<open>pre_number\<close> in \<open>kwargs\<close> is bound to the parameter of that
  name in the first call, where \<open>type\<close> is \<open>pre\<close> and the parameter is never read.
\<close>

definition run ::
  "'w service \<Rightarrow> string \<Rightarrow> string option \<Rightarrow> string list \<Rightarrow> string option \<Rightarrow> string
    \<Rightarrow> dict_ref option \<Rightarrow> (string \<rightharpoonup> string) \<Rightarrow> ('w, string) prog" where
  "run sv config function args description cleanup_algorithm userdata kwargs =
     (let userdata = (case userdata of None \<Rightarrow> Default_run | Some r \<Rightarrow> r) in
      andthen
        (if repeats_keyword
              [''config'', ''type'', ''description'', ''cleanup_algorithm'', ''userdata''] kwargs
         then raise TypeError
         else create_snapshot sv config ''pre'' None description cleanup_algorithm
                (Some userdata) kwargs)
        (\<lambda>pre_nr.
           andthen (salt (EvSaltCall function args kwargs) (salt_call sv function args kwargs))
             (\<lambda>ret.
                andthen
                  (if repeats_keyword
                        [''config'', ''type'', ''pre_number'', ''description'',
                         ''cleanup_algorithm'', ''userdata''] kwargs
                   then raise TypeError
                   else create_snapshot sv config ''post'' (Some pre_nr) description
                          cleanup_algorithm (Some userdata) kwargs)
                  (\<lambda>_. succeed ret))))"

subsection \<open>Undoing\<close>

text \<open>The loop over \<open>components\<close>: \<open>key, val = comp.split(':')\<close> raises \<open>ValueError\<close>
  unless the split has exactly two pieces.\<close>

fun parse_components :: "string list \<Rightarrow> (string \<rightharpoonup> string) \<Rightarrow> error + (string \<rightharpoonup> string)" where
  "parse_components [] ret = Inr ret"
| "parse_components (component # components) ret =
     (case py_split (CHR '':'') component of
        [key, val] \<Rightarrow> parse_components components (ret(key \<mapsto> val))
      | _ \<Rightarrow> Inl ValueError)"

text \<open>\<open>files or changed\<close> takes \<open>changed\<close> when \<open>files\<close> is \<open>None\<close> or the empty list.\<close>

definition undo ::
  "'w service \<Rightarrow> string \<Rightarrow> string list option \<Rightarrow> int option \<Rightarrow> int option
    \<Rightarrow> ('w, string \<rightharpoonup> string) prog" where
  "undo sv config files num_pre num_post =
     andthen (get_num_interval sv config num_pre num_post)
       (\<lambda>(pre, post).
          andthen (status sv config (Some pre) (Some post))
            (\<lambda>changes.
               let changed = set (map fst changes);
                   requested =
                     (case files of
                        None \<Rightarrow> changed
                      | Some fs \<Rightarrow> if fs \<noteq> [] then set fs else changed)
               in
               if \<not> requested \<subseteq> changed then
                 raise (CommandExecutionError (TextSet
                   ''Given file list contains files that are not presentin the changed filelist: {0}''
                   (changed - requested)))
               else
                 andthen (salt (EvCmdRun pre post requested) (salt_cmd_run sv pre post requested))
                   (\<lambda>cmdret. lift (parse_components (py_split (CHR '' '') cmdret) Map.empty))))"

subsection \<open>Correlating a job with its snapshots\<close>

definition get_jid_snapshots :: "'w service \<Rightarrow> string \<Rightarrow> string \<Rightarrow> ('w, int \<times> int) prog" where
  "get_jid_snapshots sv jid config =
     andthen (list_snapshots sv config)
       (\<lambda>snapshots.
          let jid_snapshots = filter (\<lambda>x. d_userdata x ''salt_jid'' = Some jid) snapshots in
          andthen (lift (py_getitem (filter (\<lambda>x. d_type x = ''pre'') jid_snapshots) 0))
            (\<lambda>p. andthen (lift (py_getitem (filter (\<lambda>x. d_type x = ''post'') jid_snapshots) 0))
               (\<lambda>q. succeed (d_id p, d_id q))))"

definition undo_jid :: "'w service \<Rightarrow> string \<Rightarrow> string \<Rightarrow> ('w, string \<rightharpoonup> string) prog" where
  "undo_jid sv jid config =
     andthen (get_jid_snapshots sv jid config)
       (\<lambda>(pre_snapshot, post_snapshot). undo sv config None (Some pre_snapshot) (Some post_snapshot))"

subsection \<open>Diffing\<close>

definition is_text_file :: "'w service \<Rightarrow> 'w \<Rightarrow> string \<Rightarrow> bool" where
  "is_text_file sv w filename = (take 4 (os_popen_read sv w (''file -bi '' @ filename)) = ''text'')"

text \<open>The body of \<open>for f in filter(lambda x: os.path.isfile(x), files)\<close>, over the files
  that passed the filter; nothing in it talks to the service.\<close>

fun diff_loop ::
  "'w service \<Rightarrow> 'w \<Rightarrow> string \<Rightarrow> string \<Rightarrow> string list \<Rightarrow> (string \<rightharpoonup> string)
    \<Rightarrow> error + (string \<rightharpoonup> string)" where
  "diff_loop sv w pre_mount post_mount [] files_diff = Inr files_diff"
| "diff_loop sv w pre_mount post_mount (f # fs) files_diff =
     (let pre_file = pre_mount @ f; post_file = post_mount @ f in
      case (if os_path_isfile sv w pre_file then open_readlines sv w pre_file else Inr []) of
        Inl e \<Rightarrow> Inl e
      | Inr pre_file_content \<Rightarrow>
          (case (if os_path_isfile sv w post_file then open_readlines sv w post_file else Inr []) of
             Inl e \<Rightarrow> Inl e
           | Inr post_file_content \<Rightarrow>
               diff_loop sv w pre_mount post_mount fs
                 (if is_text_file sv w post_file \<or> post_file_content = [] then
                    files_diff(f \<mapsto>
                      concat (unified_diff sv pre_file_content post_file_content pre_file post_file))
                  else files_diff)))"

definition diff ::
  "'w service \<Rightarrow> string \<Rightarrow> string option \<Rightarrow> int option \<Rightarrow> int option
    \<Rightarrow> ('w, string \<rightharpoonup> string) prog" where
  "diff sv config filename num_pre num_post =
     except_DBusException
       (andthen (get_num_interval sv config num_pre num_post)
          (\<lambda>(pre, post).
             andthen
               (case filename of
                  None \<Rightarrow> changed_files sv config (Some pre) (Some post)
                | Some name \<Rightarrow>
                    if name \<noteq> [] then succeed [name]
                    else changed_files sv config (Some pre) (Some post))
               (\<lambda>files.
                  andthen (dbus (EvMountSnapshot config pre False) (MountSnapshot sv config pre False))
                    (\<lambda>pre_mount.
                       andthen
                         (if post \<noteq> 0 then
                            dbus (EvMountSnapshot config post False) (MountSnapshot sv config post False)
                          else succeed [])
                         (\<lambda>post_mount.
                            andthen
                              (\<lambda>s. (diff_loop sv (world s) pre_mount post_mount
                                      (filter (os_path_isfile sv (world s)) files) Map.empty, s))
                              (\<lambda>files_diff.
                                 andthen
                                   (dbus (EvUmountSnapshot config pre False)
                                      (UmountSnapshot sv config pre False))
                                   (\<lambda>_.
                                      andthen
                                        (if post \<noteq> 0 then
                                           dbus (EvUmountSnapshot config post False)
                                             (UmountSnapshot sv config post False)
                                         else succeed ())
                                        (\<lambda>_. succeed files_diff))))))))
       (reraise ''Error encountered while showing differences between snapshots: '' config)"

definition diff_jid :: "'w service \<Rightarrow> string \<Rightarrow> string \<Rightarrow> ('w, string \<rightharpoonup> string) prog" where
  "diff_jid sv jid config =
     andthen (get_jid_snapshots sv jid config)
       (\<lambda>(pre_snapshot, post_snapshot). diff sv config None (Some pre_snapshot) (Some post_snapshot))"

section \<open>Observations on runs\<close>

text \<open>
  What the claims observe of a run: the calls of the revert executor and the mount and
  unmount calls in a trace, and the lines \<open>diff\<close> compares for a path (those of the
  file when it exists, none otherwise). \<open>keeps obs m\<close> says that \<open>m\<close> never changes the
  observation \<open>obs\<close> of the state, \<open>appends m\<close> that \<open>m\<close> only ever adds events at the
  end of the trace.

  \<open>job_description\<close> and \<open>tagged\<close> are what \<open>create_snapshot\<close> makes of its description
  and of the store before it calls the service: the description defaults to the job's
  label when there is a job id, and the job id is written into the \<open>userdata\<close> object.
\<close>

fun is_cmd_run :: "event \<Rightarrow> bool" where
  "is_cmd_run (EvCmdRun pre post requested) = True"
| "is_cmd_run _ = False"

fun is_mount_event :: "event \<Rightarrow> bool" where
  "is_mount_event (EvMountSnapshot config n exclusive) = True"
| "is_mount_event (EvUmountSnapshot config n exclusive) = True"
| "is_mount_event _ = False"

definition mount_calls :: "'w state \<Rightarrow> event list" where
  "mount_calls s = filter is_mount_event (trace s)"

definition job_description :: "string option \<Rightarrow> (string \<rightharpoonup> string) \<Rightarrow> string option" where
  "job_description description kwargs =
     (case (description, kwargs ''__pub_jid'') of
        (None, Some j) \<Rightarrow> Some (''salt job '' @ j)
      | _ \<Rightarrow> description)"

definition tagged ::
  "(dict_ref \<Rightarrow> (string \<rightharpoonup> string)) \<Rightarrow> dict_ref \<Rightarrow> (string \<rightharpoonup> string)
    \<Rightarrow> (dict_ref \<Rightarrow> (string \<rightharpoonup> string))" where
  "tagged h userdata kwargs =
     (case kwargs ''__pub_jid'' of
        None \<Rightarrow> h
      | Some j \<Rightarrow> h(userdata := (h userdata)(''salt_jid'' \<mapsto> j)))"

definition executor_calls :: "'w state \<Rightarrow> event list" where
  "executor_calls s = filter is_cmd_run (trace s)"

definition content_of :: "'w service \<Rightarrow> 'w \<Rightarrow> string \<Rightarrow> string list" where
  "content_of sv w path =
     (if os_path_isfile sv w path then
        (case open_readlines sv w path of Inr ls \<Rightarrow> ls | Inl e \<Rightarrow> [])
      else [])"

definition keeps :: "('w state \<Rightarrow> 'x) \<Rightarrow> ('w, 'a) prog \<Rightarrow> bool" where
  "keeps obs m = (\<forall>s. obs (snd (m s)) = obs s)"

definition appends :: "('w, 'a) prog \<Rightarrow> bool" where
  "appends m = (\<forall>s. \<exists>evs. trace (snd (m s)) = trace s @ evs)"

section \<open>A concrete environment\<close>

text \<open>
  The service of the repository's unit test (\<open>DBUS_RET\<close> in
  \<^verbatim>\<open>tests/unit/modules/snapper_test.py\<close>): two snapshots, 42 of type pre and 43 of type
  post, both owned by uid 0, and a comparison that reports \<open>/etc/motd\<close> with status 8.
  The world carries no information here.
\<close>

definition state0 :: "unit state" where
  "state0 = \<lparr> world = (), trace = [], heap = (\<lambda>_. Map.empty) \<rparr>"

text \<open>The state a complete \<open>diff\<close> of the interval (19, 20) leaves behind.\<close>

definition state_after_diff :: "unit state" where
  "state_after_diff =
     \<lparr> world = (),
        trace = [EvCreateComparison ''root'' 19 20, EvGetFiles ''root'' 19 20,
                 EvMountSnapshot ''root'' 19 False, EvMountSnapshot ''root'' 20 False,
                 EvUmountSnapshot ''root'' 19 False, EvUmountSnapshot ''root'' 20 False],
        heap = (\<lambda>_. Map.empty) \<rparr>"

definition snapshot_42 :: raw_snapshot where
  "snapshot_42 = \<lparr> raw_id = 42, raw_type = 1, raw_pre = 0, raw_date = 1457006571, raw_uid = 0,
      raw_description = ''Some description'', raw_cleanup = [],
      raw_userdata = [(''userdata1'', ''userval1'')] \<rparr>"

definition snapshot_43 :: raw_snapshot where
  "snapshot_43 = \<lparr> raw_id = 43, raw_type = 2, raw_pre = 42, raw_date = 1457006572, raw_uid = 0,
      raw_description = ''Blah Blah'', raw_cleanup = [],
      raw_userdata = [(''userdata2'', ''userval2'')] \<rparr>"

definition example_service :: "unit service" where
  "example_service =
     \<lparr> ListSnapshots = (\<lambda>config w. (Inr [snapshot_42, snapshot_43], w)),
       CreateComparison = (\<lambda>config pre post w. (Inr (), w)),
       GetFiles = (\<lambda>config pre post w. (Inr [(''/etc/motd'', 8)], w)),
       MountSnapshot =
         (\<lambda>config n exclusive w. (Inr (if n = 19 then ''/snap19'' else ''/snap20''), w)),
       UmountSnapshot = (\<lambda>config n exclusive w. (Inr (), w)),
       CreateSingleSnapshot = (\<lambda>config description cleanup userdata w. (Inr 44, w)),
       CreatePreSnapshot = (\<lambda>config description cleanup userdata w. (Inr 44, w)),
       CreatePostSnapshot = (\<lambda>config n description cleanup userdata w. (Inr 45, w)),
       getpwuid = (\<lambda>w uid. if uid = 0 then Some ''root'' else None),
       time_time = (\<lambda>w. 0),
       os_path_isfile =
         (\<lambda>w path. path = ''/etc/motd'' \<or> path = ''/snap19/etc/motd''
            \<or> path = ''/snap20/etc/motd''),
       open_readlines = (\<lambda>w path. Inr [path]),
       os_popen_read = (\<lambda>w command. ''text/plain; charset=us-ascii''),
       unified_diff =
         (\<lambda>a b fromfile tofile. if a = b then [] else [''--- '' @ fromfile, ''+++ '' @ tofile]),
       salt_cmd_run = (\<lambda>pre post requested w. (Inr ''modify:/etc/motd'', w)),
       salt_call = (\<lambda>function args kwargs w. (Inr ''True'', w)) \<rparr>"

text \<open>Variations: every read of a file fails; only \<open>/tmp/new\<close> exists, and in no
  snapshot; the function wrapped by \<open>run\<close> raises.\<close>

definition unreadable_service :: "unit service" where
  "unreadable_service = example_service\<lparr>open_readlines := (\<lambda>w path. Inl IOError)\<rparr>"

definition late_file_service :: "unit service" where
  "late_file_service =
     example_service\<lparr>os_path_isfile := (\<lambda>w path. path = ''/tmp/new''),
                      os_popen_read := (\<lambda>w command. ''cannot open'')\<rparr>"

definition failing_call_service :: "unit service" where
  "failing_call_service =
     example_service\<lparr>salt_call := (\<lambda>function args kwargs w. (Inl (Raised ''IOError''), w))\<rparr>"

section \<open>Auxiliary facts\<close>

lemmas prog_defs = succeed_def raise_def lift_def andthen_def dbus_def salt_def
  except_DBusException_def

lemma py_getitem_last: "xs \<noteq> [] \<Longrightarrow> py_getitem xs (- 1) = Inr (last xs)"
  by (cases xs rule: rev_cases) (auto simp: py_getitem_def nth_append)

lemma py_getitem_Nil: "py_getitem [] i = Inl IndexError"
  by (simp add: py_getitem_def)

lemma find_filter: "List.find P (filter Q xs) = List.find (\<lambda>x. Q x \<and> P x) xs"
  by (induction xs) auto

lemma py_getitem_filter_0:
  "py_getitem (filter P xs) 0 = (case List.find P xs of None \<Rightarrow> Inl IndexError | Some x \<Rightarrow> Inr x)"
  by (induction xs) (auto simp: py_getitem_def)

lemma last_sorted_Max:
  fixes ys :: "int list"
  assumes "sorted ys" "ys \<noteq> []"
  shows "last ys = Max (set ys)"
proof -
  have "\<forall>y\<in>set ys. y \<le> last ys"
    using assms by (induction ys) auto
  moreover have "last ys \<in> set ys" using assms by simp
  ultimately show ?thesis by (metis List.finite_set Max_eqI)
qed

lemma d_id_last_sort_key:
  assumes "snapshots \<noteq> []"
  shows "d_id (last (sort_key d_id snapshots)) = Max (d_id ` set snapshots)"
proof -
  have ne: "sort_key d_id snapshots \<noteq> []"
    using assms by (metis set_sort set_empty)
  have "d_id (last (sort_key d_id snapshots)) = last (map d_id (sort_key d_id snapshots))"
    using ne by (simp add: last_map)
  also have "\<dots> = Max (set (map d_id (sort_key d_id snapshots)))"
    using ne by (intro last_sorted_Max) simp_all
  finally show ?thesis by simp
qed

lemma py_getitem_newest:
  "py_getitem (sort_key d_id snapshots) (- 1) =
     (if snapshots = [] then Inl IndexError else Inr (last (sort_key d_id snapshots)))"
proof (cases "snapshots = []")
  case True
  then show ?thesis by (simp add: py_getitem_Nil)
next
  case False
  then have "sort_key d_id snapshots \<noteq> []" by (metis set_sort set_empty)
  with False show ?thesis by (simp add: py_getitem_last)
qed

text \<open>The state a computation leaves behind, through the handler every function uses.\<close>

lemma snd_reraise: "snd (reraise prefix config name s) = s"
  by (simp add: reraise_def andthen_def lift_def raise_def split: sum.splits)

lemma snd_except_reraise:
  "snd (except_DBusException m (reraise prefix config) s) = snd (m s)"
proof (cases "m s")
  case (Pair r s')
  show ?thesis
  proof (cases r)
    case (Inl e)
    with Pair show ?thesis
      by (cases e) (simp_all add: except_DBusException_def snd_reraise)
  next
    case (Inr v)
    with Pair show ?thesis by (simp add: except_DBusException_def)
  qed
qed

lemma snd_dbus: "snd (dbus ev f s) = s\<lparr>world := snd (f (world s)), trace := trace s @ [ev]\<rparr>"
  by (simp add: dbus_def split: prod.splits sum.splits)




text \<open>Observations that a computation leaves alone.\<close>

lemma keepsD: "keeps obs m \<Longrightarrow> m s = (r, s') \<Longrightarrow> obs s' = obs s"
  by (metis keeps_def snd_conv)

lemma keeps_pure: "keeps obs (\<lambda>s. (f s, s))"
  by (simp add: keeps_def)

lemma keeps_succeed: "keeps obs (succeed v)"
  by (simp add: keeps_def succeed_def)

lemma keeps_raise: "keeps obs (raise e)"
  by (simp add: keeps_def raise_def)

lemma keeps_lift: "keeps obs (lift r)"
  by (simp add: keeps_def lift_def)

lemma keeps_andthen:
  assumes "keeps obs m" and "\<And>v. keeps obs (k v)"
  shows "keeps obs (andthen m k)"
  unfolding keeps_def
proof
  fix s
  obtain r s' where ms: "m s = (r, s')" by (cases "m s")
  with assms(1) have o: "obs s' = obs s" by (rule keepsD)
  show "obs (snd (andthen m k s)) = obs s"
  proof (cases r)
    case (Inl e)
    with ms o show ?thesis by (simp add: andthen_def)
  next
    case (Inr v)
    with ms o assms(2) [of v] show ?thesis by (simp add: andthen_def keeps_def)
  qed
qed

lemma keeps_except_reraise:
  "keeps obs m \<Longrightarrow> keeps obs (except_DBusException m (reraise prefix config))"
  by (simp add: keeps_def snd_except_reraise)

lemma keeps_dbus: "\<not> is_cmd_run ev \<Longrightarrow> keeps executor_calls (dbus ev f)"
  by (simp add: keeps_def snd_dbus executor_calls_def)

lemmas keeps_intros = keeps_andthen keeps_except_reraise keeps_pure keeps_succeed keeps_raise
  keeps_lift keeps_dbus

lemma keeps_list_snapshots: "keeps executor_calls (list_snapshots sv config)"
  unfolding list_snapshots_def by (intro keeps_intros) simp

lemma keeps_get_num_interval: "keeps executor_calls (get_num_interval sv config num_pre num_post)"
  unfolding get_num_interval_def get_last_snapshot_def Let_def
  by (auto intro!: keeps_intros keeps_list_snapshots split: option.splits)

lemma keeps_status: "keeps executor_calls (status sv config num_pre num_post)"
  unfolding status_def
  by (auto intro!: keeps_intros keeps_get_num_interval simp: split_def)

lemma keeps_dbus_mounts: "\<not> is_mount_event ev \<Longrightarrow> keeps mount_calls (dbus ev f)"
  by (simp add: keeps_def snd_dbus mount_calls_def)

lemmas keeps_mounts_intros = keeps_andthen keeps_except_reraise keeps_pure keeps_succeed
  keeps_raise keeps_lift keeps_dbus_mounts

lemma keeps_mounts_list_snapshots: "keeps mount_calls (list_snapshots sv config)"
  unfolding list_snapshots_def by (intro keeps_mounts_intros) simp

lemma keeps_mounts_get_num_interval:
  "keeps mount_calls (get_num_interval sv config num_pre num_post)"
  unfolding get_num_interval_def get_last_snapshot_def Let_def
  by (auto intro!: keeps_mounts_intros keeps_mounts_list_snapshots split: option.splits)

lemma keeps_mounts_status: "keeps mount_calls (status sv config num_pre num_post)"
  unfolding status_def
  by (auto intro!: keeps_mounts_intros keeps_mounts_get_num_interval simp: split_def)

lemma keeps_mounts_changed_files: "keeps mount_calls (changed_files sv config num_pre num_post)"
  unfolding changed_files_def by (intro keeps_mounts_intros keeps_mounts_status)

lemma keeps_mounts_candidate_files:
  "keeps mount_calls (case filename of
        None \<Rightarrow> changed_files sv config (Some pre) (Some post)
      | Some name \<Rightarrow>
          if name \<noteq> [] then succeed [name]
          else changed_files sv config (Some pre) (Some post))"
  by (auto intro: keeps_mounts_changed_files keeps_succeed split: option.splits)

lemma no_mount_events:
  assumes "mount_calls s' = mount_calls s" and "trace s' = trace s @ evs"
  shows "filter is_mount_event evs = []"
  using assms by (simp add: mount_calls_def)

text \<open>Traces only grow.\<close>

lemma appendsD: "appends m \<Longrightarrow> m s = (r, s') \<Longrightarrow> \<exists>evs. trace s' = trace s @ evs"
  by (metis appends_def snd_conv)

lemma appends_pure: "appends (\<lambda>s. (f s, s))"
  by (simp add: appends_def)

lemma appends_succeed: "appends (succeed v)"
  by (simp add: appends_def succeed_def)

lemma appends_raise: "appends (raise e)"
  by (simp add: appends_def raise_def)

lemma appends_lift: "appends (lift r)"
  by (simp add: appends_def lift_def)

lemma appends_dbus: "appends (dbus ev f)"
  by (simp add: appends_def snd_dbus)

lemma appends_andthen:
  assumes "appends m" and "\<And>v. appends (k v)"
  shows "appends (andthen m k)"
  unfolding appends_def
proof
  fix s
  obtain r s' where ms: "m s = (r, s')" by (cases "m s")
  with assms(1) obtain evs where o: "trace s' = trace s @ evs" by (blast dest: appendsD)
  show "\<exists>evs. trace (snd (andthen m k s)) = trace s @ evs"
  proof (cases r)
    case (Inl e)
    with ms o show ?thesis by (simp add: andthen_def)
  next
    case (Inr v)
    obtain r2 s2 where ks: "k v s' = (r2, s2)" by (cases "k v s'")
    with assms(2) [of v] obtain evs2 where "trace s2 = trace s' @ evs2" by (blast dest: appendsD)
    with Inr ms o ks show ?thesis by (simp add: andthen_def)
  qed
qed

lemma appends_except_reraise:
  "appends m \<Longrightarrow> appends (except_DBusException m (reraise prefix config))"
  by (simp add: appends_def snd_except_reraise)

lemmas appends_intros = appends_andthen appends_except_reraise appends_pure appends_succeed
  appends_raise appends_lift appends_dbus

lemma appends_list_snapshots: "appends (list_snapshots sv config)"
  unfolding list_snapshots_def by (intro appends_intros)

lemma appends_get_num_interval: "appends (get_num_interval sv config num_pre num_post)"
  unfolding get_num_interval_def get_last_snapshot_def Let_def
  by (auto intro!: appends_intros appends_list_snapshots split: option.splits)

lemma appends_status: "appends (status sv config num_pre num_post)"
  unfolding status_def
  by (auto intro!: appends_intros appends_get_num_interval simp: split_def)

lemma appends_changed_files: "appends (changed_files sv config num_pre num_post)"
  unfolding changed_files_def by (intro appends_intros appends_status)

lemma fst_reraise: "fst (reraise prefix config name s) \<noteq> Inr v"
  by (simp add: reraise_def andthen_def lift_def raise_def split: sum.splits)

lemma except_reraise_Inr:
  assumes "except_DBusException m (reraise prefix config) s = (Inr v, s')"
  shows "m s = (Inr v, s')"
proof (cases "m s")
  case (Pair r s1)
  show ?thesis
  proof (cases r)
    case (Inl e)
    show ?thesis
    proof (cases e)
      case (DBusException name)
      with Pair Inl assms have "reraise prefix config name s1 = (Inr v, s')"
        by (simp add: except_DBusException_def)
      then have "fst (reraise prefix config name s1) = Inr v" by simp
      with fst_reraise [of prefix config name s1 v] show ?thesis by simp
    qed (use Pair Inl assms in \<open>simp_all add: except_DBusException_def\<close>)
  next
    case (Inr u)
    with Pair assms show ?thesis by (simp add: except_DBusException_def)
  qed
qed

lemma andthen_Inr:
  assumes "andthen m k s = (Inr v, s')"
  obtains u s1 where "m s = (Inr u, s1)" and "k u s1 = (Inr v, s')"
  using assms by (auto simp: andthen_def split: prod.splits sum.splits)

lemma dbus_result:
  assumes "dbus ev f s = (r, s')"
  shows "trace s' = trace s @ [ev]" and "world s' = snd (f (world s))"
  using assms snd_dbus [of ev f s] by auto

lemma dbus_Inr:
  assumes "dbus ev f s = (Inr v, s')"
  shows "f (world s) = (Inr v, world s')"
  using assms by (auto simp: dbus_def split: prod.splits sum.splits)

lemma optional_dbus_Inr:
  assumes "(if post \<noteq> (0::int) then dbus ev f else succeed d) s = (Inr v, s')"
  shows "if post \<noteq> 0 then f (world s) = (Inr v, world s') else world s' = world s"
  using assms by (auto simp: succeed_def dest: dbus_Inr)

text \<open>A run of \<open>diff\<close> that returns normally went through every step, in order.\<close>

lemma diff_Inr:
  assumes "diff sv config filename num_pre num_post s = (Inr files_diff, s')"
  shows "\<exists>pre post s1 files s2 pre_mount s3 post_mount s4 u s5 u'.
    get_num_interval sv config num_pre num_post s = (Inr (pre, post), s1)
    \<and> (case filename of
        None \<Rightarrow> changed_files sv config (Some pre) (Some post)
      | Some name \<Rightarrow>
          if name \<noteq> [] then succeed [name]
          else changed_files sv config (Some pre) (Some post)) s1 = (Inr files, s2)
    \<and> dbus (EvMountSnapshot config pre False) (MountSnapshot sv config pre False) s2
       = (Inr pre_mount, s3)
    \<and> (if post \<noteq> 0 then
        dbus (EvMountSnapshot config post False) (MountSnapshot sv config post False)
      else succeed []) s3 = (Inr post_mount, s4)
    \<and> diff_loop sv (world s4) pre_mount post_mount (filter (os_path_isfile sv (world s4)) files)
       Map.empty = Inr files_diff
    \<and> dbus (EvUmountSnapshot config pre False) (UmountSnapshot sv config pre False) s4
       = (Inr u, s5)
    \<and> (if post \<noteq> 0 then
        dbus (EvUmountSnapshot config post False) (UmountSnapshot sv config post False)
      else succeed ()) s5 = (Inr u', s')"
  apply (insert except_reraise_Inr [OF assms [unfolded diff_def]])
  apply (erule andthen_Inr, (simp only: split_paired_all prod.case)?)+
  apply (simp (no_asm_use) only: prod.inject sum.inject succeed_def)
  apply (elim conjE)
  apply hypsubst
  apply (intro exI conjI)
          apply (assumption | rule refl)+
  done

lemma candidate_files_appends:
  "appends (case filename of
        None \<Rightarrow> changed_files sv config (Some pre) (Some post)
      | Some name \<Rightarrow>
          if name \<noteq> [] then succeed [name]
          else changed_files sv config (Some pre) (Some post))"
  by (auto intro: appends_changed_files appends_succeed split: option.splits)

lemma optional_dbus_trace:
  assumes "(if post \<noteq> (0::int) then dbus ev f else succeed v) s = (r, s')"
  shows "trace s' = trace s @ (if post \<noteq> 0 then [ev] else [])"
  using assms by (auto simp: succeed_def dest: dbus_result(1))

text \<open>The mapping the loop of \<open>diff\<close> builds, entry by entry.\<close>

lemma diff_loop_result:
  assumes "diff_loop sv w pre_mount post_mount fs acc = Inr d"
  shows "d f =
     (if f \<in> set fs \<and> (is_text_file sv w (post_mount @ f) \<or> content_of sv w (post_mount @ f) = [])
      then Some (concat (unified_diff sv (content_of sv w (pre_mount @ f))
                   (content_of sv w (post_mount @ f)) (pre_mount @ f) (post_mount @ f)))
      else acc f)"
  using assms
proof (induction fs arbitrary: acc)
  case Nil
  then show ?case by simp
next
  case (Cons g gs)
  from Cons.prems obtain a b where
    a: "(if os_path_isfile sv w (pre_mount @ g) then open_readlines sv w (pre_mount @ g) else Inr []) = Inr a"
    and b: "(if os_path_isfile sv w (post_mount @ g) then open_readlines sv w (post_mount @ g) else Inr []) = Inr b"
    and rest: "diff_loop sv w pre_mount post_mount gs
                 (if is_text_file sv w (post_mount @ g) \<or> b = [] then
                    acc(g \<mapsto> concat (unified_diff sv a b (pre_mount @ g) (post_mount @ g)))
                  else acc) = Inr d"
    by (auto simp: Let_def split: sum.splits)
  from a have ca: "content_of sv w (pre_mount @ g) = a"
    by (auto simp: content_of_def split: if_splits)
  from b have cb: "content_of sv w (post_mount @ g) = b"
    by (auto simp: content_of_def split: if_splits)
  from Cons.IH [OF rest] ca cb show ?case by auto
qed

section \<open>The claims\<close>

text \<open>
  C1, as the code has it. When \<open>diff\<close> returns normally, the mount and unmount calls it
  made are exactly these, in this order: the mount of the resolved pre snapshot, the
  mount of the post snapshot when the resolved post is not 0, the unmount of pre and,
  when post is not 0, the unmount of post; the service was asked each of them and
  answered without an exception, and the world \<open>diff\<close> leaves is the one the last
  unmount produced. Every snapshot it mounted is unmounted before it returns.
\<close>

theorem diff_unmounts_on_normal_return:
  assumes "diff sv config filename num_pre num_post s = (Inr files_diff, s')"
  shows "\<exists>pre post evs w2 pre_mount w3 post_mount w4 w5.
           fst (get_num_interval sv config num_pre num_post s) = Inr (pre, post)
         \<and> trace s' = trace s @ evs
             @ [EvMountSnapshot config pre False]
             @ (if post \<noteq> 0 then [EvMountSnapshot config post False] else [])
             @ [EvUmountSnapshot config pre False]
             @ (if post \<noteq> 0 then [EvUmountSnapshot config post False] else [])
         \<and> filter is_mount_event evs = []
         \<and> MountSnapshot sv config pre False w2 = (Inr pre_mount, w3)
         \<and> (if post \<noteq> 0 then MountSnapshot sv config post False w3 = (Inr post_mount, w4)
             else w4 = w3)
         \<and> UmountSnapshot sv config pre False w4 = (Inr (), w5)
         \<and> (if post \<noteq> 0 then UmountSnapshot sv config post False w5 = (Inr (), world s')
             else world s' = w5)"
proof -
  from diff_Inr [OF assms] obtain pre post s1 files s2 pre_mount s3 post_mount s4 u s5 u' where
    1: "get_num_interval sv config num_pre num_post s = (Inr (pre, post), s1)" and
    2: "(case filename of
        None \<Rightarrow> changed_files sv config (Some pre) (Some post)
      | Some name \<Rightarrow>
          if name \<noteq> [] then succeed [name]
          else changed_files sv config (Some pre) (Some post)) s1 = (Inr files, s2)" and
    3: "dbus (EvMountSnapshot config pre False) (MountSnapshot sv config pre False) s2
       = (Inr pre_mount, s3)" and
    4: "(if post \<noteq> 0 then
        dbus (EvMountSnapshot config post False) (MountSnapshot sv config post False)
      else succeed []) s3 = (Inr post_mount, s4)" and
    6: "dbus (EvUmountSnapshot config pre False) (UmountSnapshot sv config pre False) s4
       = (Inr u, s5)" and
    7: "(if post \<noteq> 0 then
        dbus (EvUmountSnapshot config post False) (UmountSnapshot sv config post False)
      else succeed ()) s5 = (Inr u', s')"
    by blast
  from appendsD [OF appends_get_num_interval 1]
  obtain evs1 where t1: "trace s1 = trace s @ evs1" by blast
  from appendsD [OF candidate_files_appends 2]
  obtain evs2 where t2: "trace s2 = trace s1 @ evs2" by blast
  have m1: "mount_calls s1 = mount_calls s"
    using keeps_mounts_get_num_interval 1 by (rule keepsD)
  have m2: "mount_calls s2 = mount_calls s1"
    using keeps_mounts_candidate_files 2 by (rule keepsD)
  have quiet: "filter is_mount_event (evs1 @ evs2) = []"
    using no_mount_events [OF m1 t1] no_mount_events [OF m2 t2] by simp
  from 3 have t3: "trace s3 = trace s2 @ [EvMountSnapshot config pre False]"
    by (rule dbus_result)
  from 4 have t4: "trace s4 = trace s3 @ (if post \<noteq> 0 then [EvMountSnapshot config post False] else [])"
    by (rule optional_dbus_trace)
  from 6 have t5: "trace s5 = trace s4 @ [EvUmountSnapshot config pre False]"
    by (rule dbus_result)
  from 7 have t6: "trace s' = trace s5 @ (if post \<noteq> 0 then [EvUmountSnapshot config post False] else [])"
    by (rule optional_dbus_trace)
  have tr: "trace s' = trace s @ (evs1 @ evs2)
             @ [EvMountSnapshot config pre False]
             @ (if post \<noteq> 0 then [EvMountSnapshot config post False] else [])
             @ [EvUmountSnapshot config pre False]
             @ (if post \<noteq> 0 then [EvUmountSnapshot config post False] else [])"
    by (simp only: t1 t2 t3 t4 t5 t6 append_assoc)
  from 3 have c3: "MountSnapshot sv config pre False (world s2) = (Inr pre_mount, world s3)"
    by (rule dbus_Inr)
  from 4 have c4: "if post \<noteq> 0
      then MountSnapshot sv config post False (world s3) = (Inr post_mount, world s4)
      else world s4 = world s3"
    by (rule optional_dbus_Inr)
  from 6 have c6: "UmountSnapshot sv config pre False (world s4) = (Inr (), world s5)"
    by (simp add: dbus_Inr)
  from 7 have c7: "if post \<noteq> 0
      then UmountSnapshot sv config post False (world s5) = (Inr (), world s')
      else world s' = world s5"
    using optional_dbus_Inr [OF 7] by simp
  from 1 have r: "fst (get_num_interval sv config num_pre num_post s) = Inr (pre, post)"
    by simp
  from r tr quiet c3 c4 c6 c7 show ?thesis by blast
qed

theorem diff_unmounts_on_normal_return_witness:
  "\<exists>pre post evs w2 pre_mount w3 post_mount w4 w5.
       fst (get_num_interval example_service ''root'' (Some 19) (Some 20) state0) = Inr (pre, post)
     \<and> trace state_after_diff = trace state0 @ evs
         @ [EvMountSnapshot ''root'' pre False]
         @ (if post \<noteq> 0 then [EvMountSnapshot ''root'' post False] else [])
         @ [EvUmountSnapshot ''root'' pre False]
         @ (if post \<noteq> 0 then [EvUmountSnapshot ''root'' post False] else [])
     \<and> filter is_mount_event evs = []
     \<and> MountSnapshot example_service ''root'' pre False w2 = (Inr pre_mount, w3)
     \<and> (if post \<noteq> 0 then MountSnapshot example_service ''root'' post False w3 = (Inr post_mount, w4)
         else w4 = w3)
     \<and> UmountSnapshot example_service ''root'' pre False w4 = (Inr (), w5)
     \<and> (if post \<noteq> 0
         then UmountSnapshot example_service ''root'' post False w5 = (Inr (), world state_after_diff)
         else world state_after_diff = w5)"
proof -
  have h: "diff example_service ''root'' None (Some 19) (Some 20) state0 =
      (Inr [''/etc/motd'' \<mapsto> ''--- /snap19/etc/motd+++ /snap20/etc/motd''], state_after_diff)"
    by (simp add: diff_def changed_files_def status_def get_num_interval_def prog_defs
        example_service_def state0_def state_after_diff_def is_text_file_def)
  show ?thesis by (rule diff_unmounts_on_normal_return [OF h])
qed

text \<open>
  C1 as stated fails. The unmount calls stand after the loop, outside any
  \<open>finally\<close>: when reading a file raises inside the loop, \<open>diff\<close> ends with that
  exception and both snapshots stay mounted.
\<close>

theorem diff_leaves_mounts_on_read_error:
  "diff unreadable_service ''root'' None (Some 19) (Some 20) state0 =
     (Inl IOError,
      \<lparr> world = (),
         trace = [EvCreateComparison ''root'' 19 20, EvGetFiles ''root'' 19 20,
                  EvMountSnapshot ''root'' 19 False, EvMountSnapshot ''root'' 20 False],
         heap = (\<lambda>_. Map.empty) \<rparr>)"
  by (simp add: diff_def changed_files_def status_def get_num_interval_def prog_defs
      unreadable_service_def example_service_def state0_def is_text_file_def)

text \<open>
  C2. The claim: \<open>status\<close> maps each path returned by \<open>GetFiles\<close> to its status code
  decoded into a change status, so that \<open>GetFiles\<close> returning \<open>[("/etc/motd", 8)]\<close> for
  the interval (19, 20) gives \<open>{"/etc/motd": modified}\<close>, and \<open>changed_files\<close> gives
  \<open>/etc/motd\<close>. The code at that input: \<open>status\<close> stores \<open>file[1]\<close> as it came, the
  number 8; the decoder \<open>_status_to_string\<close>, which would turn 8 into \<open>modified\<close>, is
  defined but never called. \<open>changed_files\<close> is as claimed.
\<close>

theorem status_returns_raw_code:
  "fst (status example_service ''root'' (Some 19) (Some 20) state0) = Inr [(''/etc/motd'', 8)]
   \<and> status_to_string 8 = ''modified''
   \<and> fst (changed_files example_service ''root'' (Some 19) (Some 20) state0) = Inr [''/etc/motd'']"
  by (simp add: changed_files_def status_def get_num_interval_def prog_defs
      example_service_def state0_def status_to_string_def)

text \<open>
  C3, as the code has it. When \<open>diff\<close> returns normally, the returned mapping has an
  entry for exactly those candidate paths that are regular files of the live file
  system and whose post-side file is text or whose post-side content is empty; the
  entry is the joined unified diff of the two contents. A path whose content is absent
  on both sides has empty post-side content, so it does get an entry: the diff of two
  empty contents.
\<close>

theorem diff_returned_mapping:
  assumes "diff sv config filename num_pre num_post s = (Inr files_diff, s')"
  shows "\<exists>pre post s1 files s2 pre_mount s3 post_mount s4.
      get_num_interval sv config num_pre num_post s = (Inr (pre, post), s1)
    \<and> (case filename of
          None \<Rightarrow> changed_files sv config (Some pre) (Some post)
        | Some name \<Rightarrow>
            if name \<noteq> [] then succeed [name]
            else changed_files sv config (Some pre) (Some post)) s1 = (Inr files, s2)
    \<and> dbus (EvMountSnapshot config pre False) (MountSnapshot sv config pre False) s2
         = (Inr pre_mount, s3)
    \<and> (if post \<noteq> 0 then
          dbus (EvMountSnapshot config post False) (MountSnapshot sv config post False)
        else succeed []) s3 = (Inr post_mount, s4)
    \<and> (\<forall>f. files_diff f =
          (if f \<in> set files \<and> os_path_isfile sv (world s4) f
              \<and> (is_text_file sv (world s4) (post_mount @ f)
                   \<or> content_of sv (world s4) (post_mount @ f) = [])
           then Some (concat (unified_diff sv
                  (content_of sv (world s4) (pre_mount @ f))
                  (content_of sv (world s4) (post_mount @ f))
                  (pre_mount @ f) (post_mount @ f)))
           else None))"
proof -
  from diff_Inr [OF assms] obtain pre post s1 files s2 pre_mount s3 post_mount s4 where
    1: "get_num_interval sv config num_pre num_post s = (Inr (pre, post), s1)" and
    2: "(case filename of
        None \<Rightarrow> changed_files sv config (Some pre) (Some post)
      | Some name \<Rightarrow>
          if name \<noteq> [] then succeed [name]
          else changed_files sv config (Some pre) (Some post)) s1 = (Inr files, s2)" and
    3: "dbus (EvMountSnapshot config pre False) (MountSnapshot sv config pre False) s2
       = (Inr pre_mount, s3)" and
    4: "(if post \<noteq> 0 then
        dbus (EvMountSnapshot config post False) (MountSnapshot sv config post False)
      else succeed []) s3 = (Inr post_mount, s4)" and
    5: "diff_loop sv (world s4) pre_mount post_mount (filter (os_path_isfile sv (world s4)) files)
       Map.empty = Inr files_diff"
    by blast
  have "\<forall>f. files_diff f =
          (if f \<in> set files \<and> os_path_isfile sv (world s4) f
              \<and> (is_text_file sv (world s4) (post_mount @ f)
                   \<or> content_of sv (world s4) (post_mount @ f) = [])
           then Some (concat (unified_diff sv
                  (content_of sv (world s4) (pre_mount @ f))
                  (content_of sv (world s4) (post_mount @ f))
                  (pre_mount @ f) (post_mount @ f)))
           else None)"
    using diff_loop_result [OF 5] by simp
  with 1 2 3 4 show ?thesis by blast
qed

theorem diff_returned_mapping_witness:
  "\<exists>pre post s1 files s2 pre_mount s3 post_mount s4.
      get_num_interval late_file_service ''root'' (Some 19) (Some 20) state0 = (Inr (pre, post), s1)
    \<and> succeed [''/tmp/new''] s1 = (Inr files, s2)
    \<and> dbus (EvMountSnapshot ''root'' pre False) (MountSnapshot late_file_service ''root'' pre False) s2
         = (Inr pre_mount, s3)
    \<and> (if post \<noteq> 0 then
          dbus (EvMountSnapshot ''root'' post False) (MountSnapshot late_file_service ''root'' post False)
        else succeed []) s3 = (Inr post_mount, s4)
    \<and> (\<forall>f. [''/tmp/new'' \<mapsto> []] f =
          (if f \<in> set files \<and> os_path_isfile late_file_service (world s4) f
              \<and> (is_text_file late_file_service (world s4) (post_mount @ f)
                   \<or> content_of late_file_service (world s4) (post_mount @ f) = [])
           then Some (concat (unified_diff late_file_service
                  (content_of late_file_service (world s4) (pre_mount @ f))
                  (content_of late_file_service (world s4) (post_mount @ f))
                  (pre_mount @ f) (post_mount @ f)))
           else None))"
proof -
  have h: "diff late_file_service ''root'' (Some ''/tmp/new'') (Some 19) (Some 20) state0 =
      (Inr [''/tmp/new'' \<mapsto> []],
       \<lparr> world = (),
          trace = [EvMountSnapshot ''root'' 19 False, EvMountSnapshot ''root'' 20 False,
                   EvUmountSnapshot ''root'' 19 False, EvUmountSnapshot ''root'' 20 False],
          heap = (\<lambda>_. Map.empty) \<rparr>)"
    by (simp add: diff_def get_num_interval_def prog_defs
        late_file_service_def example_service_def state0_def is_text_file_def)
  from diff_returned_mapping [OF h] show ?thesis by simp
qed

text \<open>
  C3 as stated fails. \<open>/tmp/new\<close> exists in the live file system and in neither
  mounted snapshot; both contents are empty, and the returned mapping has an entry for
  the path, with an empty diff.
\<close>

theorem diff_entry_for_file_absent_on_both_sides:
  "fst (diff late_file_service ''root'' (Some ''/tmp/new'') (Some 19) (Some 20) state0) =
     Inr [''/tmp/new'' \<mapsto> []]
   \<and> \<not> os_path_isfile late_file_service () ''/snap19/tmp/new''
   \<and> \<not> os_path_isfile late_file_service () ''/snap20/tmp/new''"
  by (simp add: diff_def get_num_interval_def prog_defs
      late_file_service_def example_service_def state0_def is_text_file_def)

text \<open>
  C4. When the interval resolves and \<open>status\<close> returns the changes, a non-empty
  requested list that is not a subset of the changed paths makes \<open>undo\<close> raise
  \<open>CommandExecutionError\<close> whose message is formatted with the set of changed paths
  minus the requested ones. The run ends in the state \<open>status\<close> left: the revert
  executor has not been called.
\<close>

theorem undo_rejects_unchanged_files:
  assumes "get_num_interval sv config num_pre num_post s = (Inr (pre, post), s1)"
    and "status sv config (Some pre) (Some post) s1 = (Inr changes, s2)"
    and "files \<noteq> []"
    and "\<not> set files \<subseteq> set (map fst changes)"
  shows "undo sv config (Some files) num_pre num_post s =
           (Inl (CommandExecutionError (TextSet
              ''Given file list contains files that are not presentin the changed filelist: {0}''
              (set (map fst changes) - set files))), s2)
         \<and> executor_calls s2 = executor_calls s"
proof -
  have "executor_calls s1 = executor_calls s"
    using keeps_get_num_interval assms(1) by (rule keepsD)
  moreover have "executor_calls s2 = executor_calls s1"
    using keeps_status assms(2) by (rule keepsD)
  moreover have "undo sv config (Some files) num_pre num_post s =
           (Inl (CommandExecutionError (TextSet
              ''Given file list contains files that are not presentin the changed filelist: {0}''
              (set (map fst changes) - set files))), s2)"
    using assms by (simp add: undo_def andthen_def raise_def Let_def)
  ultimately show ?thesis by simp
qed

theorem undo_rejects_unchanged_files_witness:
  "undo example_service ''root'' (Some [''/etc/passwd'']) (Some 19) (Some 20) state0 =
     (Inl (CommandExecutionError (TextSet
        ''Given file list contains files that are not presentin the changed filelist: {0}''
        {''/etc/motd''})),
      \<lparr> world = (), trace = [EvCreateComparison ''root'' 19 20, EvGetFiles ''root'' 19 20],
         heap = (\<lambda>_. Map.empty) \<rparr>)
   \<and> executor_calls
        \<lparr> world = (), trace = [EvCreateComparison ''root'' 19 20, EvGetFiles ''root'' 19 20],
           heap = (\<lambda>_. Map.empty) \<rparr> = []"
proof -
  have i: "get_num_interval example_service ''root'' (Some 19) (Some 20) state0 =
      (Inr (19, 20), state0)"
    by (simp add: get_num_interval_def prog_defs)
  have st: "status example_service ''root'' (Some 19) (Some 20) state0 =
      (Inr [(''/etc/motd'', 8)],
       \<lparr> world = (), trace = [EvCreateComparison ''root'' 19 20, EvGetFiles ''root'' 19 20],
          heap = (\<lambda>_. Map.empty) \<rparr>)"
    by (simp add: status_def get_num_interval_def prog_defs example_service_def state0_def)
  have ne: "[''/etc/passwd''] \<noteq> []" by simp
  have ns: "\<not> set [''/etc/passwd''] \<subseteq> set (map fst [(''/etc/motd'', 8::int)])" by simp
  from undo_rejects_unchanged_files [OF i st ne ns] show ?thesis
    by (simp add: executor_calls_def state0_def)
qed

text \<open>
  C5, as the code has it. \<open>_get_jid_snapshots\<close> lists the snapshots of the configuration
  (a failure of that call is passed on) and returns the id of the first snapshot of type
  pre and the id of the first snapshot of type post among those whose userdata holds
  \<open>salt_jid\<close> with the job's id; nothing checks that there is only one of each. When
  there is no such pre or no such post snapshot, indexing the empty list raises
  \<open>IndexError\<close>: the module builds no error of its own for a job without snapshots.
\<close>

theorem get_jid_snapshots_first_match:
  "get_jid_snapshots sv jid config s =
     (case list_snapshots sv config s of
        (Inl e, s') \<Rightarrow> (Inl e, s')
      | (Inr snapshots, s') \<Rightarrow>
          (case (List.find (\<lambda>x. d_userdata x ''salt_jid'' = Some jid \<and> d_type x = ''pre'') snapshots,
                 List.find (\<lambda>x. d_userdata x ''salt_jid'' = Some jid \<and> d_type x = ''post'') snapshots) of
             (Some p, Some q) \<Rightarrow> (Inr (d_id p, d_id q), s')
           | _ \<Rightarrow> (Inl IndexError, s')))"
  by (simp add: get_jid_snapshots_def Let_def succeed_def lift_def andthen_def
      py_getitem_filter_0 find_filter split: option.splits prod.splits sum.splits)

text \<open>
  C5 as stated fails: in the example configuration no snapshot carries the job id
  \<open>J1\<close>, and what comes back is Python's bare \<open>IndexError\<close>, not an error that says
  that no snapshot was found for the job.
\<close>

theorem get_jid_snapshots_no_match:
  "fst (get_jid_snapshots example_service ''J1'' ''root'' state0) = Inl IndexError"
  by (simp add: get_jid_snapshots_def list_snapshots_def prog_defs
      example_service_def state0_def snapshot_to_data_def
      py_getitem_def snapshot_42_def snapshot_43_def)

text \<open>
  C6, as the code has it. The resolved post is the supplied value, and 0 when none is
  supplied. The resolved pre is the supplied value when one is supplied and it is not 0,
  with no call to the service and no check that such a snapshot exists. When pre is
  omitted, and also when it is given as 0 (which Python's truth test does not tell
  from \<open>None\<close>), the snapshots are listed and the resolved pre is the largest id among
  them; an empty list raises \<open>IndexError\<close>, a failed listing is passed on.
\<close>

theorem get_num_interval_resolution:
  "get_num_interval sv config num_pre num_post s =
     (let post = (case num_post of None \<Rightarrow> 0 | Some q \<Rightarrow> q);
          newest =
            (case list_snapshots sv config s of
               (Inl e, s') \<Rightarrow> (Inl e, s')
             | (Inr snapshots, s') \<Rightarrow>
                 if snapshots = [] then (Inl IndexError, s')
                 else (Inr (Max (d_id ` set snapshots), post), s'))
      in case num_pre of
           None \<Rightarrow> newest
         | Some p \<Rightarrow> if p \<noteq> 0 then (Inr (p, post), s) else newest)"
  by (auto simp: get_num_interval_def get_last_snapshot_def Let_def succeed_def lift_def
      andthen_def py_getitem_newest d_id_last_sort_key
      split: option.splits prod.splits sum.splits)

text \<open>
  C6 as stated fails for the value 0: an explicit \<open>num_pre = 0\<close> is not used as it is,
  the interval starts at the newest snapshot, 43.
\<close>

theorem get_num_interval_zero_pre:
  "fst (get_num_interval example_service ''root'' (Some 0) None state0) = Inr (43, 0)"
  by (simp add: get_num_interval_def get_last_snapshot_def list_snapshots_def prog_defs
      example_service_def state0_def snapshot_to_data_def
      py_getitem_def snapshot_42_def snapshot_43_def)

text \<open>
  C7. A raw record whose type index is 0, 1 or 2 and whose owner resolves decodes to a
  snapshot of type single, pre or post respectively; for type index 2 the key \<open>pre\<close> is
  set, to the record's pre-number field \<open>snapshot[2]\<close>, and for type index 0 or 1 the key
  is not set.
\<close>

theorem snapshot_to_data_type_and_pre:
  assumes "raw_type snapshot \<in> {0, 1, 2}"
    and "getpwuid sv w (raw_uid snapshot) = Some user"
  shows "\<exists>d. snapshot_to_data sv w snapshot = Inr d
           \<and> d_type d = [''single'', ''pre'', ''post''] ! nat (raw_type snapshot)
           \<and> d_pre d = (if raw_type snapshot = 2 then Some (raw_pre snapshot) else None)"
  using assms by (auto simp: snapshot_to_data_def py_getitem_def)

theorem snapshot_to_data_type_and_pre_witness:
  "\<exists>d. snapshot_to_data example_service () snapshot_43 = Inr d
           \<and> d_type d = ''post'' \<and> d_pre d = Some 42"
proof -
  have t: "raw_type snapshot_43 \<in> {0, 1, 2}" by (simp add: snapshot_43_def)
  have u: "getpwuid example_service () (raw_uid snapshot_43) = Some ''root''"
    by (simp add: example_service_def snapshot_43_def)
  from snapshot_to_data_type_and_pre [OF t u] show ?thesis
    by (simp add: snapshot_43_def)
qed


text \<open>
  C9. A run of \<open>run\<close> in which the wrapped function raises: \<open>kwargs\<close> repeats none of
  the keywords of the first \<open>create_snapshot\<close> call, the service created the pre
  snapshot when asked (with the description and the userdata \<open>create_snapshot\<close> sends),
  and the function, called in the world that creation left, raised \<open>e\<close>. Then \<open>run\<close>
  ends with that very exception, in the world the function left; the calls it made are
  the creation of the pre snapshot followed by the call of the function, and no post
  snapshot is created.
\<close>

theorem run_function_raises:
  assumes "\<not> repeats_keyword
               [''config'', ''type'', ''description'', ''cleanup_algorithm'', ''userdata''] kwargs"
    and "CreatePreSnapshot sv config (job_description description kwargs) cleanup_algorithm
           (tagged (heap s) (case userdata of None \<Rightarrow> Default_run | Some r \<Rightarrow> r) kwargs
              (case userdata of None \<Rightarrow> Default_run | Some r \<Rightarrow> r))
           (world s) = (Inr pre_nr, w1)"
    and "salt_call sv function args kwargs w1 = (Inl e, w2)"
  shows "run sv config function args description cleanup_algorithm userdata kwargs s =
           (Inl e,
            s\<lparr>world := w2,
              trace := trace s @
                [EvCreatePreSnapshot config (job_description description kwargs) cleanup_algorithm
                   (tagged (heap s) (case userdata of None \<Rightarrow> Default_run | Some r \<Rightarrow> r) kwargs
                      (case userdata of None \<Rightarrow> Default_run | Some r \<Rightarrow> r)),
                 EvSaltCall function args kwargs],
              heap := tagged (heap s) (case userdata of None \<Rightarrow> Default_run | Some r \<Rightarrow> r)
                        kwargs\<rparr>)"
proof -
  define ref where "ref = (case userdata of None \<Rightarrow> Default_run | Some r \<Rightarrow> r)"
  have pre: "create_snapshot sv config ''pre'' None description cleanup_algorithm (Some ref) kwargs s =
      (Inr pre_nr,
       s\<lparr>world := w1,
         trace := trace s @
           [EvCreatePreSnapshot config (job_description description kwargs) cleanup_algorithm
              (tagged (heap s) ref kwargs ref)],
         heap := tagged (heap s) ref kwargs\<rparr>)"
    using assms(2) [folded ref_def]
    by (cases "kwargs ''__pub_jid''")
       (simp_all add: create_snapshot_def job_description_def tagged_def Let_def prog_defs)
  show ?thesis
    using assms(1) assms(3) pre
    unfolding ref_def [symmetric]
    by (simp add: run_def Let_def andthen_def salt_def ref_def [symmetric])
qed

theorem run_function_raises_witness:
  "run failing_call_service ''root'' (Some ''file.append'') [''/etc/motd'', ''some text''] None
      ''number'' None [''__pub_jid'' \<mapsto> ''20160607130930720112''] state0 =
     (Inl (Raised ''IOError''),
      \<lparr> world = (),
         trace = [EvCreatePreSnapshot ''root'' (Some ''salt job 20160607130930720112'') ''number''
                    [''salt_jid'' \<mapsto> ''20160607130930720112''],
                  EvSaltCall (Some ''file.append'') [''/etc/motd'', ''some text'']
                    [''__pub_jid'' \<mapsto> ''20160607130930720112'']],
         heap = (\<lambda>_. Map.empty)(Default_run := [''salt_jid'' \<mapsto> ''20160607130930720112'']) \<rparr>)"
proof -
  have k: "\<not> repeats_keyword
               [''config'', ''type'', ''description'', ''cleanup_algorithm'', ''userdata'']
               [''__pub_jid'' \<mapsto> ''20160607130930720112'']"
    by (simp add: repeats_keyword_def)
  have c: "CreatePreSnapshot failing_call_service ''root''
             (job_description None [''__pub_jid'' \<mapsto> ''20160607130930720112'']) ''number''
             (tagged (heap state0) (case None of None \<Rightarrow> Default_run | Some r \<Rightarrow> r)
                [''__pub_jid'' \<mapsto> ''20160607130930720112'']
                (case None of None \<Rightarrow> Default_run | Some r \<Rightarrow> r))
             (world state0) = (Inr 44, ())"
    by (simp add: failing_call_service_def example_service_def)
  have f: "salt_call failing_call_service (Some ''file.append'') [''/etc/motd'', ''some text'']
             [''__pub_jid'' \<mapsto> ''20160607130930720112''] () = (Inl (Raised ''IOError''), ())"
    by (simp add: failing_call_service_def example_service_def)
  from run_function_raises [OF k c f] show ?thesis
    by (simp add: state0_def job_description_def tagged_def)
qed

text \<open>
  C10. \<open>undo\<close> with an empty list of files is \<open>undo\<close> without the argument, in result
  and in effect. When the interval resolves and \<open>status\<close> returns the changes, the
  revert executor is run on the set of all changed paths, in the world \<open>status\<close> left:
  what \<open>undo\<close> returns is the executor's exception or its parsed output, and the world
  it leaves is the executor's.
\<close>

theorem undo_empty_file_list:
  "undo sv config (Some []) num_pre num_post s = undo sv config None num_pre num_post s
   \<and> (get_num_interval sv config num_pre num_post s = (Inr (pre, post), s1)
        \<and> status sv config (Some pre) (Some post) s1 = (Inr changes, s2)
      \<longrightarrow> undo sv config (Some []) num_pre num_post s =
            (case salt_cmd_run sv pre post (set (map fst changes)) (world s2) of
               (Inl e, w') \<Rightarrow>
                 (Inl e,
                  s2\<lparr>world := w',
                     trace := trace s2 @ [EvCmdRun pre post (set (map fst changes))]\<rparr>)
             | (Inr cmdret, w') \<Rightarrow>
                 (parse_components (py_split (CHR '' '') cmdret) Map.empty,
                  s2\<lparr>world := w',
                     trace := trace s2 @ [EvCmdRun pre post (set (map fst changes))]\<rparr>)))"
  by (simp add: undo_def andthen_def Let_def salt_def lift_def split: prod.splits sum.splits)

theorem undo_empty_file_list_witness:
  "undo example_service ''root'' (Some []) (Some 19) (Some 20) state0 =
     undo example_service ''root'' None (Some 19) (Some 20) state0
   \<and> undo example_service ''root'' (Some []) (Some 19) (Some 20) state0 =
       (Inr [''modify'' \<mapsto> ''/etc/motd''],
        \<lparr> world = (),
           trace = [EvCreateComparison ''root'' 19 20, EvGetFiles ''root'' 19 20,
                    EvCmdRun 19 20 {''/etc/motd''}],
           heap = (\<lambda>_. Map.empty) \<rparr>)"
proof -
  have h: "get_num_interval example_service ''root'' (Some 19) (Some 20) state0 =
             (Inr (19, 20), state0)
         \<and> status example_service ''root'' (Some 19) (Some 20) state0 =
             (Inr [(''/etc/motd'', 8)],
              \<lparr> world = (), trace = [EvCreateComparison ''root'' 19 20, EvGetFiles ''root'' 19 20],
                 heap = (\<lambda>_. Map.empty) \<rparr>)"
    by (simp add: status_def get_num_interval_def prog_defs example_service_def state0_def)
  note t = undo_empty_file_list [of example_service "''root''" "Some 19" "Some 20" state0
      19 20 state0 "[(''/etc/motd'', 8)]"
      "\<lparr> world = (), trace = [EvCreateComparison ''root'' 19 20, EvGetFiles ''root'' 19 20],
          heap = (\<lambda>_. Map.empty) \<rparr>"]
  from t [THEN conjunct1] t [THEN conjunct2, THEN mp, OF h] show ?thesis
    by (simp add: example_service_def)
qed

end
